theory Spec2Isabelle
  imports Main
begin

section \<open>The Home component of Make-Friends-Frontend\<close>

text \<open>
  The component \<^verbatim>\<open>Home\<close> of \<^verbatim>\<open>src/components/Home.js\<close> keeps six pieces of React
  state and talks to one remote service through \<^verbatim>\<open>fetch\<close>. Every handler is an
  \<^verbatim>\<open>async\<close> function: it runs up to its first \<^verbatim>\<open>await\<close>, is suspended while the
  request is in flight, and is resumed when the request settles. The embedding is an
  event system: one transition per user event (mount, input change, button click), one
  for the passing of time (the debounce timer), and one per settled request. The state
  of the system is the React state together with what the JavaScript environment holds
  for the component: the console, the clock, the debounce timer and the requests in
  flight.
\<close>

subsection \<open>Data\<close>

text \<open>
  The objects the service returns. \<^verbatim>\<open>_id\<close> is written \<open>user_id\<close>. The entries of the
  friends and pending lists are read through \<^verbatim>\<open>_id\<close> and \<^verbatim>\<open>username\<close>; a search
  result has a \<^verbatim>\<open>requestStatus\<close> in addition; a recommendation wraps a user.
\<close>

record person =
  user_id :: string
  username :: string

record search_user = person +
  requestStatus :: string

record recommendation =
  user :: person
  mutualFriends :: nat
  mutualInterests :: nat

text \<open>The single notification slot, \<^verbatim>\<open>{ message: '', type: '' }\<close> at the start.\<close>

record notification =
  message :: string
  type :: string

text \<open>
  The body of the answer to \<^verbatim>\<open>POST /friends/request/:id\<close>: \<^verbatim>\<open>data.status\<close> and
  \<^verbatim>\<open>data.message\<close>. A body without a \<^verbatim>\<open>status\<close> property (the error payload of the
  service) reads \<^verbatim>\<open>undefined\<close> there, which is \<open>None\<close>.
\<close>

record toggle_data =
  data_status :: "string option"
  data_message :: string

text \<open>
  How a request settles. \<^verbatim>\<open>fetch\<close> rejects only when no response arrives
  (\<open>NetworkError\<close>); a response of any HTTP status resolves it. \<^verbatim>\<open>response.json()\<close>
  rejects when the body is not JSON (\<open>MalformedResponse\<close>). \<open>Http code body\<close> is a
  response whose body parses; bodies have the shape the endpoint documents.
\<close>

datatype 'a reply = NetworkError | MalformedResponse | Http nat 'a

datatype exn = FetchRejected | JsonRejected

text \<open>
  The three \<^verbatim>\<open>useCallback\<close> fetch functions, and the requests that can be in flight.
  \<open>Load f fs\<close> is the request made by the fetch function \<open>f\<close>, whose caller goes on
  to call the fetch functions \<open>fs\<close> in order once \<open>f\<close> has returned (the \<^verbatim>\<open>await\<close>
  chain of \<^verbatim>\<open>fetchAllData\<close>); a fetch function called without \<^verbatim>\<open>await\<close> has
  \<open>fs = []\<close>.
\<close>

datatype loader = FetchFriends | FetchRecommendations | FetchPendingRequests

datatype request =
    Load loader "loader list"
  | Search string
  | SendFriendRequest string
  | AcceptFriendRequest string
  | Unfriend string

record home =
  searchTerm :: string
  searchResults :: "search_user list"
  friends :: "person list"
  recommendations :: "recommendation list"
  pendingRequests :: "person list"
  notifications :: notification
  console :: "string list"
  clock :: nat
  timer :: "(string \<times> nat) option"
  inflight :: "request list"
  issued :: "(nat \<times> request) list"

text \<open>
  \<open>console\<close> collects the messages of \<^verbatim>\<open>console.error\<close>; \<open>clock\<close> is the time in
  milliseconds; \<open>timer\<close> is the pending invocation of the debounced search (its
  argument and the time it is due); \<open>inflight\<close> are the requests sent and not yet
  settled; \<open>issued\<close> records every call of \<^verbatim>\<open>fetch\<close> with the time it was made.
\<close>

definition initial :: home where
  "initial = \<lparr> searchTerm = [], searchResults = [], friends = [], recommendations = [],
     pendingRequests = [], notifications = \<lparr> message = [], type = [] \<rparr>,
     console = [], clock = 0, timer = None, inflight = [], issued = [] \<rparr>"

subsection \<open>The environment: fetch, await, try and catch, console\<close>

definition fetch :: "request \<Rightarrow> home \<Rightarrow> home" where
  "fetch q s = s\<lparr> inflight := inflight s @ [q], issued := issued s @ [(clock s, q)] \<rparr>"

fun await_fetch :: "'a reply \<Rightarrow> exn + 'a reply" where
  "await_fetch NetworkError = Inl FetchRejected"
| "await_fetch MalformedResponse = Inr MalformedResponse"
| "await_fetch (Http code body) = Inr (Http code body)"

fun await_json :: "'a reply \<Rightarrow> exn + 'a" where
  "await_json (Http code body) = Inr body"
| "await_json MalformedResponse = Inl JsonRejected"
| "await_json NetworkError = Inl FetchRejected"

definition and_then :: "exn + 'a \<Rightarrow> ('a \<Rightarrow> exn + 'b) \<Rightarrow> exn + 'b" where
  "and_then p k = (case p of Inl e \<Rightarrow> Inl e | Inr v \<Rightarrow> k v)"

definition try_catch :: "exn + 'a \<Rightarrow> (exn \<Rightarrow> exn + 'a) \<Rightarrow> exn + 'a" where
  "try_catch body handler = (case body of Inl e \<Rightarrow> handler e | Inr v \<Rightarrow> Inr v)"

definition console_error :: "string \<Rightarrow> home \<Rightarrow> home" where
  "console_error msg s = s\<lparr> console := console s @ [msg] \<rparr>"

subsection \<open>The fetch functions\<close>

text \<open>
  Each fetch function is split at its \<^verbatim>\<open>await\<close>: the call sends the request, and the
  \<open>_resume\<close> function is the rest of the body, run on the settled request. Its result is
  \<open>Inr\<close> of the new state when the function returns and \<open>Inl\<close> of the exception when
  it throws.
\<close>

definition fetchFriends :: "loader list \<Rightarrow> home \<Rightarrow> home" where
  "fetchFriends fs s = fetch (Load FetchFriends fs) s"

definition fetchFriends_resume :: "person list reply \<Rightarrow> home \<Rightarrow> exn + home" where
  "fetchFriends_resume r s =
     try_catch
       (and_then (await_fetch r) (\<lambda>response.
        and_then (await_json response) (\<lambda>data.
        Inr (s\<lparr> friends := data \<rparr>))))
       (\<lambda>error. Inr (console_error ''Error fetching friends:'' s))"

definition fetchRecommendations :: "loader list \<Rightarrow> home \<Rightarrow> home" where
  "fetchRecommendations fs s = fetch (Load FetchRecommendations fs) s"

definition fetchRecommendations_resume :: "recommendation list reply \<Rightarrow> home \<Rightarrow> exn + home" where
  "fetchRecommendations_resume r s =
     try_catch
       (and_then (await_fetch r) (\<lambda>response.
        and_then (await_json response) (\<lambda>data.
        Inr (s\<lparr> recommendations := data \<rparr>))))
       (\<lambda>error. Inr (console_error ''Error fetching recommendations:'' s))"

definition fetchPendingRequests :: "loader list \<Rightarrow> home \<Rightarrow> home" where
  "fetchPendingRequests fs s = fetch (Load FetchPendingRequests fs) s"

definition fetchPendingRequests_resume :: "person list reply \<Rightarrow> home \<Rightarrow> exn + home" where
  "fetchPendingRequests_resume r s =
     try_catch
       (and_then (await_fetch r) (\<lambda>response.
        and_then (await_json response) (\<lambda>data.
        Inr (s\<lparr> pendingRequests := data \<rparr>))))
       (\<lambda>error. Inr (console_error ''Error fetching pending requests:'' s))"

text \<open>
  \<^verbatim>\<open>fetchAllData\<close> awaits the three fetch functions one after the other. \<open>call\<close>
  starts a fetch function; \<open>continue\<close> is what the caller of a fetch function does when
  that function has returned: it calls the next one, if any.
\<close>

fun call :: "loader \<Rightarrow> loader list \<Rightarrow> home \<Rightarrow> home" where
  "call FetchFriends fs s = fetchFriends fs s"
| "call FetchRecommendations fs s = fetchRecommendations fs s"
| "call FetchPendingRequests fs s = fetchPendingRequests fs s"

fun continue :: "loader list \<Rightarrow> home \<Rightarrow> home" where
  "continue [] s = s"
| "continue (f # fs) s = call f fs s"

definition fetchAllData :: "home \<Rightarrow> home" where
  "fetchAllData s = continue [FetchFriends, FetchRecommendations, FetchPendingRequests] s"

subsection \<open>The debounced search\<close>

text \<open>
  Modelled from the spec: \<^verbatim>\<open>debounce\<close> is imported from the package \<^verbatim>\<open>lodash\<close>, which
  is not part of the sources. With the default options it delays the invocation of the
  function until the wait has elapsed since the last call of the debounced function,
  and invokes it with the arguments of that last call; a call while an invocation is
  pending replaces it. Nothing but its \<^verbatim>\<open>cancel\<close> method, which \<^verbatim>\<open>Home.js\<close> never
  calls, removes a pending invocation. The wait is the \<^verbatim>\<open>300\<close> of the source. The
  pending invocation is the \<open>timer\<close> of the state; \<open>elapse\<close> below runs it when it
  is due. The debounced function is created once per token, and the token does not
  change while the component is mounted.
\<close>

definition debouncedSearch :: "string \<Rightarrow> home \<Rightarrow> home" where
  "debouncedSearch term s = s\<lparr> timer := Some (term, clock s + 300) \<rparr>"

text \<open>
  Time passes: \<open>elapse d\<close> moves the clock on by \<open>d\<close> milliseconds. A pending
  invocation that falls due in between runs at its due time: the debounced function
  starts and sends its request.
\<close>

definition elapse :: "nat \<Rightarrow> home \<Rightarrow> home" where
  "elapse d s =
     (case timer s of
        None \<Rightarrow> s\<lparr> clock := clock s + d \<rparr>
      | Some (term, due) \<Rightarrow>
          if due \<le> clock s + d
          then (fetch (Search term) (s\<lparr> clock := due, timer := None \<rparr>))\<lparr> clock := clock s + d \<rparr>
          else s\<lparr> clock := clock s + d \<rparr>)"

definition debouncedSearch_resume :: "search_user list reply \<Rightarrow> home \<Rightarrow> exn + home" where
  "debouncedSearch_resume r s =
     try_catch
       (and_then (await_fetch r) (\<lambda>response.
        and_then (await_json response) (\<lambda>data.
        Inr (s\<lparr> searchResults := data \<rparr>))))
       (\<lambda>error. Inr (console_error ''Error searching users:'' s))"

definition handleSearchChange :: "string \<Rightarrow> home \<Rightarrow> home" where
  "handleSearchChange term s =
     (let s1 = s\<lparr> searchTerm := term \<rparr>
      in if length term > 0 then debouncedSearch term s1
         else s1\<lparr> searchResults := [] \<rparr>)"

subsection \<open>Friend request actions\<close>

definition sendFriendRequest :: "string \<Rightarrow> home \<Rightarrow> home" where
  "sendFriendRequest userId s = fetch (SendFriendRequest userId) s"

definition sendFriendRequest_resume :: "string \<Rightarrow> toggle_data reply \<Rightarrow> home \<Rightarrow> exn + home" where
  "sendFriendRequest_resume userId r s =
     try_catch
       (and_then (await_fetch r) (\<lambda>response.
        and_then (await_json response) (\<lambda>data.
        Inr (fetchRecommendations []
          (s\<lparr> notifications :=
                 \<lparr> message = data_message data,
                   type = (if data_status data = Some ''requested'' then ''success'' else ''info'') \<rparr>,
               searchResults :=
                 map (\<lambda>u. if user_id u = userId
                          then u\<lparr> requestStatus :=
                                 (if data_status data = Some ''requested'' then ''requested'' else ''none'') \<rparr>
                          else u)
                     (searchResults s) \<rparr>)))))
       (\<lambda>error. Inr ((console_error ''Error managing friend request:'' s)
          \<lparr> notifications := \<lparr> message = ''Error managing friend request'', type = ''error'' \<rparr> \<rparr>))"

text \<open>
  \<^verbatim>\<open>acceptFriendRequest\<close> and \<^verbatim>\<open>unfriend\<close> await the \<^verbatim>\<open>fetch\<close> only: the body of the
  response is never read.
\<close>

definition acceptFriendRequest :: "string \<Rightarrow> home \<Rightarrow> home" where
  "acceptFriendRequest userId s = fetch (AcceptFriendRequest userId) s"

definition acceptFriendRequest_resume :: "string \<Rightarrow> unit reply \<Rightarrow> home \<Rightarrow> exn + home" where
  "acceptFriendRequest_resume userId r s =
     try_catch
       (and_then (await_fetch r) (\<lambda>response.
        Inr (fetchFriends [] (fetchPendingRequests [] s))))
       (\<lambda>error. Inr (console_error ''Error accepting friend request:'' s))"

definition unfriend :: "string \<Rightarrow> home \<Rightarrow> home" where
  "unfriend userId s = fetch (Unfriend userId) s"

definition unfriend_resume :: "string \<Rightarrow> unit reply \<Rightarrow> home \<Rightarrow> exn + home" where
  "unfriend_resume userId r s =
     try_catch
       (and_then (await_fetch r) (\<lambda>response.
        Inr (fetchFriends [] s)))
       (\<lambda>error. Inr (console_error ''Error unfriending user:'' s))"

subsection \<open>The buttons the component renders\<close>

text \<open>
  A search result shows a button calling \<^verbatim>\<open>sendFriendRequest(user._id)\<close> when its
  \<^verbatim>\<open>requestStatus\<close> is \<^verbatim>\<open>'none'\<close> or \<^verbatim>\<open>'requested'\<close>; every recommendation
  shows one for \<^verbatim>\<open>rec.user._id\<close>; every pending request shows Accept; every friend
  shows Unfriend.
\<close>

definition sendButtons :: "home \<Rightarrow> string list" where
  "sendButtons s =
     map user_id (filter (\<lambda>u. requestStatus u = ''none'' \<or> requestStatus u = ''requested'')
                         (searchResults s))
     @ map (\<lambda>r. user_id (user r)) (recommendations s)"

definition acceptButtons :: "home \<Rightarrow> string list" where
  "acceptButtons s = map user_id (pendingRequests s)"

definition unfriendButtons :: "home \<Rightarrow> string list" where
  "unfriendButtons s = map user_id (friends s)"

subsection \<open>The event system\<close>

datatype event =
    Mount
  | Change string
  | Elapse nat
  | ClickSend string
  | ClickAccept string
  | ClickUnfriend string
  | FriendsReply "loader list" "person list reply"
  | RecommendationsReply "loader list" "recommendation list reply"
  | PendingReply "loader list" "person list reply"
  | SearchReply string "search_user list reply"
  | SendReply string "toggle_data reply"
  | AcceptReply string "unit reply"
  | UnfriendReply string "unit reply"

text \<open>
  An event that cannot happen in the state (a reply to a request that is not in flight,
  a click on a button that is not rendered) and an exception that leaves an
  \<^verbatim>\<open>async\<close> function are the two ways a run stops.
\<close>

datatype stuck = Uncaught exn | NotInFlight request | NoButton string

definition settle :: "request \<Rightarrow> (home \<Rightarrow> exn + home) \<Rightarrow> home \<Rightarrow> stuck + home" where
  "settle q k s =
     (if q \<in> set (inflight s)
      then (case k (s\<lparr> inflight := remove1 q (inflight s) \<rparr>) of
              Inl e \<Rightarrow> Inl (Uncaught e)
            | Inr s' \<Rightarrow> Inr s')
      else Inl (NotInFlight q))"

definition click :: "string \<Rightarrow> string list \<Rightarrow> home \<Rightarrow> stuck + home" where
  "click userId buttons s = (if userId \<in> set buttons then Inr s else Inl (NoButton userId))"

fun step :: "event \<Rightarrow> home \<Rightarrow> stuck + home" where
  "step Mount s = Inr (fetchAllData s)"
| "step (Change term) s = Inr (handleSearchChange term s)"
| "step (Elapse d) s = Inr (elapse d s)"
| "step (ClickSend userId) s =
     map_sum id (sendFriendRequest userId) (click userId (sendButtons s) s)"
| "step (ClickAccept userId) s =
     map_sum id (acceptFriendRequest userId) (click userId (acceptButtons s) s)"
| "step (ClickUnfriend userId) s =
     map_sum id (unfriend userId) (click userId (unfriendButtons s) s)"
| "step (FriendsReply fs r) s =
     settle (Load FetchFriends fs)
       (\<lambda>s. and_then (fetchFriends_resume r s) (\<lambda>s'. Inr (continue fs s'))) s"
| "step (RecommendationsReply fs r) s =
     settle (Load FetchRecommendations fs)
       (\<lambda>s. and_then (fetchRecommendations_resume r s) (\<lambda>s'. Inr (continue fs s'))) s"
| "step (PendingReply fs r) s =
     settle (Load FetchPendingRequests fs)
       (\<lambda>s. and_then (fetchPendingRequests_resume r s) (\<lambda>s'. Inr (continue fs s'))) s"
| "step (SearchReply term r) s = settle (Search term) (debouncedSearch_resume r) s"
| "step (SendReply userId r) s =
     settle (SendFriendRequest userId) (sendFriendRequest_resume userId r) s"
| "step (AcceptReply userId r) s =
     settle (AcceptFriendRequest userId) (acceptFriendRequest_resume userId r) s"
| "step (UnfriendReply userId r) s =
     settle (Unfriend userId) (unfriend_resume userId r) s"

fun run :: "event list \<Rightarrow> home \<Rightarrow> stuck + home" where
  "run [] s = Inr s"
| "run (e # es) s = (case step e s of Inl x \<Rightarrow> Inl x | Inr s' \<Rightarrow> run es s')"

subsection \<open>Notions used in the statements\<close>

text \<open>
  \<open>awaited ev\<close> is the request a reply event settles. \<open>failed ev\<close> holds when the
  handler resumed by \<open>ev\<close> has an \<^verbatim>\<open>await\<close> of its \<^verbatim>\<open>try\<close> block throw: the
  \<^verbatim>\<open>fetch\<close> was rejected or, where the handler reads the body, the body did not parse.
\<close>

fun awaited :: "event \<Rightarrow> request option" where
  "awaited (FriendsReply fs r) = Some (Load FetchFriends fs)"
| "awaited (RecommendationsReply fs r) = Some (Load FetchRecommendations fs)"
| "awaited (PendingReply fs r) = Some (Load FetchPendingRequests fs)"
| "awaited (SearchReply term r) = Some (Search term)"
| "awaited (SendReply userId r) = Some (SendFriendRequest userId)"
| "awaited (AcceptReply userId r) = Some (AcceptFriendRequest userId)"
| "awaited (UnfriendReply userId r) = Some (Unfriend userId)"
| "awaited Mount = None"
| "awaited (Change term) = None"
| "awaited (Elapse d) = None"
| "awaited (ClickSend userId) = None"
| "awaited (ClickAccept userId) = None"
| "awaited (ClickUnfriend userId) = None"

fun failed :: "event \<Rightarrow> bool" where
  "failed (FriendsReply fs r) = (r = NetworkError \<or> r = MalformedResponse)"
| "failed (RecommendationsReply fs r) = (r = NetworkError \<or> r = MalformedResponse)"
| "failed (PendingReply fs r) = (r = NetworkError \<or> r = MalformedResponse)"
| "failed (SearchReply term r) = (r = NetworkError \<or> r = MalformedResponse)"
| "failed (SendReply userId r) = (r = NetworkError \<or> r = MalformedResponse)"
| "failed (AcceptReply userId r) = (r = NetworkError)"
| "failed (UnfriendReply userId r) = (r = NetworkError)"
| "failed Mount = False"
| "failed (Change term) = False"
| "failed (Elapse d) = False"
| "failed (ClickSend userId) = False"
| "failed (ClickAccept userId) = False"
| "failed (ClickUnfriend userId) = False"

text \<open>
  What a fetch function leaves in its collection: the body of a response that parses,
  the old value when the \<^verbatim>\<open>fetch\<close> or the parse of the body rejects. \<open>caught\<close>
  counts the rejection the \<^verbatim>\<open>catch\<close> block of the fetch function handles.
\<close>

fun loaded :: "'a reply \<Rightarrow> 'a \<Rightarrow> 'a" where
  "loaded (Http code body) old = body"
| "loaded NetworkError old = old"
| "loaded MalformedResponse old = old"

fun caught :: "'a reply \<Rightarrow> nat" where
  "caught (Http code body) = 0"
| "caught NetworkError = 1"
| "caught MalformedResponse = 1"

text \<open>
  A burst of typing: a first input change to \<open>term\<close>, then for each \<open>(gap, term')\<close> of
  \<open>rest\<close> a pause of \<open>gap\<close> milliseconds followed by an input change to \<open>term'\<close>.
\<close>

fun pauses :: "(nat \<times> string) list \<Rightarrow> event list" where
  "pauses [] = []"
| "pauses ((gap, term) # rest) = Elapse gap # Change term # pauses rest"

definition typing :: "string \<Rightarrow> (nat \<times> string) list \<Rightarrow> event list" where
  "typing term rest = Change term # pauses rest"

text \<open>Sample data for the concrete runs.\<close>

definition xena :: search_user where
  "xena = \<lparr> user_id = ''u1'', username = ''xena'', requestStatus = ''none'' \<rparr>"

definition yuri :: search_user where
  "yuri = \<lparr> user_id = ''u2'', username = ''yuri'', requestStatus = ''none'' \<rparr>"

definition bob :: search_user where
  "bob = \<lparr> user_id = ''u3'', username = ''bob'', requestStatus = ''requested'' \<rparr>"

definition fred :: person where
  "fred = \<lparr> user_id = ''u4'', username = ''fred'' \<rparr>"

definition pat :: person where
  "pat = \<lparr> user_id = ''u5'', username = ''pat'' \<rparr>"

section \<open>Properties\<close>

lemmas env_defs = fetch_def and_then_def try_catch_def console_error_def settle_def click_def

lemmas handler_defs = fetchFriends_def fetchFriends_resume_def fetchRecommendations_def
  fetchRecommendations_resume_def fetchPendingRequests_def fetchPendingRequests_resume_def
  fetchAllData_def debouncedSearch_def elapse_def debouncedSearch_resume_def
  handleSearchChange_def sendFriendRequest_def sendFriendRequest_resume_def
  acceptFriendRequest_def acceptFriendRequest_resume_def unfriend_def unfriend_resume_def
  sendButtons_def acceptButtons_def unfriendButtons_def

lemma call_sends: "call f fs s = fetch (Load f fs) s"
  by (cases f) (simp_all add: handler_defs)

lemma continue_keeps:
  "searchTerm (continue fs s) = searchTerm s"
  "searchResults (continue fs s) = searchResults s"
  "friends (continue fs s) = friends s"
  "recommendations (continue fs s) = recommendations s"
  "pendingRequests (continue fs s) = pendingRequests s"
  "notifications (continue fs s) = notifications s"
  "console (continue fs s) = console s"
  "clock (continue fs s) = clock s"
  "timer (continue fs s) = timer s"
  by (cases fs; simp add: call_sends fetch_def)+

text \<open>A reply can only be delivered to a request that is in flight.\<close>

lemma reply_needs_request:
  "awaited ev = Some q \<Longrightarrow> q \<notin> set (inflight s) \<Longrightarrow> step ev s = Inl (NotInFlight q)"
  by (cases ev) (auto simp add: settle_def)

subsection \<open>Search responses\<close>

lemma search_reply_shown:
  "Search x \<in> set (inflight s) \<Longrightarrow>
   step (SearchReply x (Http c d)) s =
     Inr (s\<lparr> inflight := remove1 (Search x) (inflight s), searchResults := d \<rparr>)"
  by (simp add: env_defs handler_defs)

text \<open>
  C1, as stated, fails. A request for \<^verbatim>\<open>x\<close> is sent at 300 ms and one for \<^verbatim>\<open>y\<close> at
  600 ms, before \<^verbatim>\<open>x\<close> has settled; the response to \<^verbatim>\<open>y\<close> arrives first and the
  response to \<^verbatim>\<open>x\<close> after it. The displayed results are then those of \<^verbatim>\<open>x\<close>, the
  request that was superseded.
\<close>

theorem stale_search_response_is_shown:
  "map_sum id searchResults
     (run [Change ''x'', Elapse 300, Change ''y'', Elapse 300,
           SearchReply ''y'' (Http 200 [yuri]), SearchReply ''x'' (Http 200 [xena])] initial)
   = Inr [xena]"
  by (simp add: initial_def env_defs handler_defs)

text \<open>
  C1, amended. Every search response that parses replaces the displayed results by its
  own body, whichever request it answers. With the requests for \<open>x\<close> and \<open>y\<close> both in
  flight, the displayed results are those of the response that settles last: those of
  \<open>x\<close> when \<open>x\<close> settles after \<open>y\<close>, those of \<open>y\<close> when \<open>y\<close> settles after \<open>x\<close>.
\<close>

theorem last_settled_search_is_shown:
  assumes "Search x \<in> set (inflight s)" and "Search y \<in> set (inflight s)" and "x \<noteq> y"
  shows "map_sum id searchResults
           (run [SearchReply y (Http cy dy), SearchReply x (Http cx dx)] s) = Inr dx
       \<and> map_sum id searchResults
           (run [SearchReply x (Http cx dx), SearchReply y (Http cy dy)] s) = Inr dy"
  using assms by (simp del: step.simps add: search_reply_shown)

theorem last_settled_search_is_shown_witness:
  "map_sum id searchResults
     (run [SearchReply ''y'' (Http 200 [yuri]), SearchReply ''x'' (Http 200 [xena])]
          (fetch (Search ''y'') (fetch (Search ''x'') initial))) = Inr [xena]
   \<and> map_sum id searchResults
     (run [SearchReply ''x'' (Http 200 [xena]), SearchReply ''y'' (Http 200 [yuri])]
          (fetch (Search ''y'') (fetch (Search ''x'') initial))) = Inr [yuri]"
  using last_settled_search_is_shown
    [of "''x''" "fetch (Search ''y'') (fetch (Search ''x'') initial)" "''y''"
        200 "[yuri]" 200 "[xena]"]
  by (simp add: fetch_def)

subsection \<open>Failures of the remote call\<close>

text \<open>
  C2, as stated, fails. The pending list holds one request; the user accepts it and the
  \<^verbatim>\<open>fetch\<close> of \<^verbatim>\<open>acceptFriendRequest\<close> is rejected. The failure is caught and
  written to the console, and the notification slot still holds its initial, empty
  value: no message of kind \<^verbatim>\<open>error\<close> is produced.
\<close>

theorem failed_accept_emits_no_notification:
  "map_sum id notifications
     (run [Mount, FriendsReply [FetchRecommendations, FetchPendingRequests] (Http 200 []),
           RecommendationsReply [FetchPendingRequests] (Http 200 []),
           PendingReply [] (Http 200 [pat]),
           ClickAccept ''u5'', AcceptReply ''u5'' NetworkError] initial)
   = Inr \<lparr> message = [], type = [] \<rparr>"
  by (simp add: initial_def pat_def env_defs handler_defs)

text \<open>
  C2, amended. Whenever the remote call of a handler fails by rejecting (the \<^verbatim>\<open>fetch\<close>,
  or the parse of the body where the handler reads it), the handler returns: the
  exception is caught in the handler and none leaves it. One line is written to the
  console. Only \<^verbatim>\<open>sendFriendRequest\<close> turns the failure into a notification of kind
  \<^verbatim>\<open>error\<close>; the fetch functions, the search, \<^verbatim>\<open>acceptFriendRequest\<close> and
  \<^verbatim>\<open>unfriend\<close> leave the notification slot as it was. The four collections are
  unchanged.
\<close>

theorem remote_failure_is_caught_and_logged:
  assumes "failed ev" and "awaited ev = Some q" and "q \<in> set (inflight s)"
  shows "\<exists>s'. step ev s = Inr s'
           \<and> (\<exists>line. console s' = console s @ [line])
           \<and> notifications s' =
               (case q of
                  SendFriendRequest userId \<Rightarrow>
                    \<lparr> message = ''Error managing friend request'', type = ''error'' \<rparr>
                | _ \<Rightarrow> notifications s)
           \<and> searchResults s' = searchResults s
           \<and> friends s' = friends s
           \<and> recommendations s' = recommendations s
           \<and> pendingRequests s' = pendingRequests s"
  using assms by (cases ev) (auto simp add: env_defs handler_defs continue_keeps)

theorem remote_failure_is_caught_and_logged_witness:
  "\<exists>s'. step (SendReply ''u1'' NetworkError) (fetch (SendFriendRequest ''u1'') initial) = Inr s'
         \<and> (\<exists>line. console s' = console (fetch (SendFriendRequest ''u1'') initial) @ [line])
         \<and> notifications s' =
             \<lparr> message = ''Error managing friend request'', type = ''error'' \<rparr>"
proof -
  let ?s = "fetch (SendFriendRequest ''u1'') initial"
  have rejected: "failed (SendReply ''u1'' NetworkError)" by simp
  have request: "awaited (SendReply ''u1'' NetworkError) = Some (SendFriendRequest ''u1'')"
    by simp
  have sent: "SendFriendRequest ''u1'' \<in> set (inflight ?s)" by (simp add: fetch_def)
  from remote_failure_is_caught_and_logged [OF rejected request sent] obtain s' where
    "step (SendReply ''u1'' NetworkError) ?s = Inr s'"
    "\<exists>line. console s' = console ?s @ [line]"
    "notifications s' = \<lparr> message = ''Error managing friend request'', type = ''error'' \<rparr>"
    by auto
  then show ?thesis by (intro exI [of _ s']) simp
qed

text \<open>
  C3: the code at the failing input. The search shows \<^verbatim>\<open>bob\<close> with an outgoing
  request; the user cancels it and the service answers with HTTP status 500 and the
  body \<^verbatim>\<open>{"message": "Internal Server Error"}\<close>. \<^verbatim>\<open>sendFriendRequest\<close> never looks at
  the status of the response: it runs its success path, rewrites the entry to
  \<^verbatim>\<open>'none'\<close>, shows the message as \<^verbatim>\<open>info\<close> and refreshes the recommendations.
\<close>

theorem server_error_is_applied_as_success:
  "run [Change ''bob'', Elapse 300, SearchReply ''bob'' (Http 200 [bob]),
        ClickSend ''u3'',
        SendReply ''u3''
          (Http 500 \<lparr> data_status = None, data_message = ''Internal Server Error'' \<rparr>)]
       initial
   = Inr \<lparr> searchTerm = ''bob'',
           searchResults = [bob\<lparr> requestStatus := ''none'' \<rparr>],
           friends = [], recommendations = [], pendingRequests = [],
           notifications = \<lparr> message = ''Internal Server Error'', type = ''info'' \<rparr>,
           console = [], clock = 300, timer = None,
           inflight = [Load FetchRecommendations []],
           issued = [(300, Search ''bob''), (300, SendFriendRequest ''u3''),
                     (300, Load FetchRecommendations [])] \<rparr>"
  by (simp add: initial_def bob_def env_defs handler_defs)

subsection \<open>Clearing the search\<close>

text \<open>
  C4, as stated, fails. The user types \<^verbatim>\<open>a\<close> and clears the input 100 ms later. The
  invocation scheduled for \<^verbatim>\<open>a\<close> is still pending: it runs at 300 ms, and when its
  response arrives the results are shown although the search term is empty.
\<close>

theorem cleared_results_are_repopulated:
  "map_sum id searchTerm
     (run [Change ''a'', Elapse 100, Change [], Elapse 200,
           SearchReply ''a'' (Http 200 [xena])] initial) = Inr []
   \<and> map_sum id searchResults
     (run [Change ''a'', Elapse 100, Change [], Elapse 200,
           SearchReply ''a'' (Http 200 [xena])] initial) = Inr [xena]"
  by (simp add: initial_def env_defs handler_defs)

text \<open>
  C4, amended. An input change to the empty string clears the displayed results in the
  same step, without any wait and without a request. It changes nothing else but the
  search term: the pending invocation of the debounced search and the requests in
  flight stay as they are.
\<close>

theorem empty_term_clears_at_once:
  "step (Change []) s = Inr (s\<lparr> searchTerm := [], searchResults := [] \<rparr>)"
  by (simp add: handleSearchChange_def)

theorem empty_term_clears_at_once_witness:
  "step (Change [])
     (initial\<lparr> searchTerm := ''a'', searchResults := [xena], timer := Some (''a'', 300) \<rparr>)
   = Inr (initial\<lparr> searchTerm := ''a'', searchResults := [xena], timer := Some (''a'', 300) \<rparr>
            \<lparr> searchTerm := [], searchResults := [] \<rparr>)"
  by (rule empty_term_clears_at_once)

subsection \<open>The debounce\<close>

lemma pause_then_change:
  assumes "gap < 300" and "term \<noteq> []" and "timer s = Some (t, clock s + 300)"
  shows "run (Elapse gap # Change term # es) s =
         run es (s\<lparr> clock := clock s + gap, searchTerm := term,
                    timer := Some (term, clock s + gap + 300) \<rparr>)"
  using assms by (simp add: handler_defs)

lemma pauses_keep_timer:
  assumes "\<forall>(gap, term) \<in> set rest. gap < 300 \<and> term \<noteq> []"
      and "timer s = Some (t, clock s + 300)" and "searchTerm s = t"
  shows "run (pauses rest @ es) s =
         run es (s\<lparr> clock := clock s + sum_list (map fst rest),
                    searchTerm := last (t # map snd rest),
                    timer := Some (last (t # map snd rest),
                                   clock s + sum_list (map fst rest) + 300) \<rparr>)"
  using assms
proof (induction rest arbitrary: s t)
  case Nil
  then show ?case by (cases s) simp
next
  case (Cons k rest)
  obtain g tm where k: "k = (g, tm)" by (cases k)
  let ?s1 = "s\<lparr> clock := clock s + g, searchTerm := tm,
                timer := Some (tm, clock s + g + 300) \<rparr>"
  from Cons.prems k have small: "g < 300" "tm \<noteq> []" by auto
  have "run (pauses (k # rest) @ es) s = run (pauses rest @ es) ?s1"
    using pause_then_change [OF small Cons.prems(2)] k by simp
  also have "\<dots> = run es (?s1\<lparr> clock := clock ?s1 + sum_list (map fst rest),
                    searchTerm := last (tm # map snd rest),
                    timer := Some (last (tm # map snd rest),
                                   clock ?s1 + sum_list (map fst rest) + 300) \<rparr>)"
    using Cons.prems(1) by (intro Cons.IH) simp_all
  finally show ?case using k by (simp add: add.assoc)
qed

text \<open>
  C5. The user types a non-empty \<open>term\<close> and then, for each \<open>(gap, term')\<close> of \<open>rest\<close>,
  a non-empty \<open>term'\<close> less than 300 ms after the previous keystroke; \<open>wait\<close>
  milliseconds pass after the last keystroke. Whatever the state at the first
  keystroke, no request is sent while \<open>wait\<close> is below 300, and from 300 on exactly one
  request has been sent: for the last term typed, 300 ms after the last keystroke. No
  keystroke but the last one leads to a request.
\<close>

theorem one_search_after_the_last_keystroke:
  assumes "term \<noteq> []" and "\<forall>(gap, term') \<in> set rest. gap < 300 \<and> term' \<noteq> []"
  shows "map_sum id issued (run (typing term rest @ [Elapse wait]) s) =
         Inr (issued s @
              (if wait < 300 then []
               else [(clock s + sum_list (map fst rest) + 300,
                      Search (last (term # map snd rest)))]))"
proof -
  let ?s0 = "s\<lparr> searchTerm := term, timer := Some (term, clock s + 300) \<rparr>"
  have "run (typing term rest @ [Elapse wait]) s = run (pauses rest @ [Elapse wait]) ?s0"
    using assms(1) by (simp add: typing_def handler_defs)
  also have "\<dots> = run [Elapse wait]
                (?s0\<lparr> clock := clock ?s0 + sum_list (map fst rest),
                      searchTerm := last (term # map snd rest),
                      timer := Some (last (term # map snd rest),
                                     clock ?s0 + sum_list (map fst rest) + 300) \<rparr>)"
    using assms(2) by (intro pauses_keep_timer) simp_all
  finally show ?thesis by (simp add: handler_defs env_defs)
qed

text \<open>
  The run of the specification: keystrokes \<^verbatim>\<open>a\<close> at 0 ms, \<^verbatim>\<open>ab\<close> at 100 ms and
  \<^verbatim>\<open>abc\<close> at 150 ms. Nothing has been sent at 449 ms; at 450 ms the one request, for
  \<^verbatim>\<open>abc\<close>, is sent.
\<close>

theorem one_search_after_the_last_keystroke_witness:
  "map_sum id issued
     (run (typing ''a'' [(100, ''ab''), (50, ''abc'')] @ [Elapse 299]) initial) = Inr []
   \<and> map_sum id issued
     (run (typing ''a'' [(100, ''ab''), (50, ''abc'')] @ [Elapse 300]) initial)
       = Inr [(450, Search ''abc'')]"
  using one_search_after_the_last_keystroke
          [of "''a''" "[(100, ''ab''), (50, ''abc'')]" 299 initial]
        one_search_after_the_last_keystroke
          [of "''a''" "[(100, ''ab''), (50, ''abc'')]" 300 initial]
  by (simp add: initial_def)

subsection \<open>Sending and cancelling a friend request\<close>

lemma send_reply_success:
  "SendFriendRequest userId \<in> set (inflight s) \<Longrightarrow>
   step (SendReply userId (Http code d)) s =
     Inr (s\<lparr> inflight := remove1 (SendFriendRequest userId) (inflight s)
                          @ [Load FetchRecommendations []],
             notifications :=
               \<lparr> message = data_message d,
                 type = (if data_status d = Some ''requested'' then ''success'' else ''info'') \<rparr>,
             searchResults :=
               map (\<lambda>u. if user_id u = userId
                        then u\<lparr> requestStatus :=
                               (if data_status d = Some ''requested''
                                then ''requested'' else ''none'') \<rparr>
                        else u)
                   (searchResults s),
             issued := issued s @ [(clock s, Load FetchRecommendations [])] \<rparr>)"
  by (simp add: env_defs handler_defs)

lemma send_reply_fields:
  assumes "SendFriendRequest userId \<in> set (inflight s)"
  obtains s' where "step (SendReply userId (Http code d)) s = Inr s'"
    and "searchResults s' =
           map (\<lambda>u. if user_id u = userId
                     then u\<lparr> requestStatus :=
                            (if data_status d = Some ''requested''
                             then ''requested'' else ''none'') \<rparr>
                     else u) (searchResults s)"
    and "notifications s' =
           \<lparr> message = data_message d,
             type = (if data_status d = Some ''requested'' then ''success'' else ''info'') \<rparr>"
    and "inflight s' = remove1 (SendFriendRequest userId) (inflight s)
                       @ [Load FetchRecommendations []]"
    and "issued s' = issued s @ [(clock s, Load FetchRecommendations [])]"
    and "friends s' = friends s" and "pendingRequests s' = pendingRequests s"
    and "recommendations s' = recommendations s"
proof -
  let ?s' = "s\<lparr> inflight := remove1 (SendFriendRequest userId) (inflight s)
                             @ [Load FetchRecommendations []],
             notifications :=
               \<lparr> message = data_message d,
                 type = (if data_status d = Some ''requested'' then ''success'' else ''info'') \<rparr>,
             searchResults :=
               map (\<lambda>u. if user_id u = userId
                        then u\<lparr> requestStatus :=
                               (if data_status d = Some ''requested''
                                then ''requested'' else ''none'') \<rparr>
                        else u)
                   (searchResults s),
             issued := issued s @ [(clock s, Load FetchRecommendations [])] \<rparr>"
  have "step (SendReply userId (Http code d)) s = Inr ?s'"
    by (rule send_reply_success [OF assms])
  then show thesis
    by (rule that) simp_all
qed

lemma patched_id:
  "map user_id (map (\<lambda>u. if user_id u = userId then u\<lparr> requestStatus := v \<rparr> else u) xs)
   = map user_id xs"
  by (induction xs) simp_all

lemma patched_status:
  "\<forall>u \<in> set (map (\<lambda>u. if user_id u = userId then u\<lparr> requestStatus := v \<rparr> else u) xs).
   user_id u = userId \<longrightarrow> requestStatus u = v"
  by (induction xs) (simp_all add: ball_Un)

lemma click_send:
  "userId \<in> set (sendButtons s) \<Longrightarrow>
   step (ClickSend userId) s = Inr (fetch (SendFriendRequest userId) s)"
  by (simp add: click_def sendFriendRequest_def)

lemma same_status: "requestStatus u = v \<Longrightarrow> u\<lparr> requestStatus := v \<rparr> = u"
  by (cases u) simp

lemma button_for_entry:
  assumes "u \<in> set (searchResults s)" and "user_id u = userId"
      and "requestStatus u = ''none'' \<or> requestStatus u = ''requested''"
  shows "userId \<in> set (sendButtons s)"
  using assms by (auto simp add: sendButtons_def)

lemma patch_twice:
  assumes "\<forall>u \<in> set xs. user_id u = userId \<longrightarrow> requestStatus u = v"
  shows "map (\<lambda>u. if user_id u = userId then u\<lparr> requestStatus := v \<rparr> else u)
           (map (\<lambda>u. if user_id u = userId then u\<lparr> requestStatus := w \<rparr> else u) xs) = xs"
  using assms by (induction xs) (simp_all add: same_status)

text \<open>
  C6. When the request of \<^verbatim>\<open>sendFriendRequest(userId)\<close> settles with a response that
  parses, the handler returns and: the search results keep their entries and order
  (they are patched by id); every entry with that id has the status the service
  reported, \<^verbatim>\<open>'requested'\<close> when \<^verbatim>\<open>data.status\<close> is \<^verbatim>\<open>'requested'\<close> and \<^verbatim>\<open>'none'\<close>
  otherwise; the notification carries the message of the service, of kind
  \<^verbatim>\<open>success\<close> for a new request and \<^verbatim>\<open>info\<close> otherwise; and a refresh of the
  recommendations has been sent.
\<close>

theorem request_or_cancel_success:
  assumes "SendFriendRequest userId \<in> set (inflight s)"
  shows "\<exists>s'. step (SendReply userId (Http code d)) s = Inr s'
      \<and> map user_id (searchResults s') = map user_id (searchResults s)
      \<and> (\<forall>u \<in> set (searchResults s'). user_id u = userId \<longrightarrow>
            requestStatus u =
              (if data_status d = Some ''requested'' then ''requested'' else ''none''))
      \<and> notifications s' =
            \<lparr> message = data_message d,
              type = (if data_status d = Some ''requested'' then ''success'' else ''info'') \<rparr>
      \<and> Load FetchRecommendations [] \<in> set (inflight s')
      \<and> issued s' = issued s @ [(clock s, Load FetchRecommendations [])]"
proof -
  from send_reply_fields [OF assms, of code d] obtain s' where
    s': "step (SendReply userId (Http code d)) s = Inr s'"
      "searchResults s' =
           map (\<lambda>u. if user_id u = userId
                     then u\<lparr> requestStatus :=
                            (if data_status d = Some ''requested''
                             then ''requested'' else ''none'') \<rparr>
                     else u) (searchResults s)"
      "notifications s' =
           \<lparr> message = data_message d,
             type = (if data_status d = Some ''requested'' then ''success'' else ''info'') \<rparr>"
      "inflight s' = remove1 (SendFriendRequest userId) (inflight s)
                     @ [Load FetchRecommendations []]"
      "issued s' = issued s @ [(clock s, Load FetchRecommendations [])]"
    by blast
  have ids: "map user_id (searchResults s') = map user_id (searchResults s)"
    unfolding s'(2) by (rule patched_id)
  have status: "\<forall>u \<in> set (searchResults s'). user_id u = userId \<longrightarrow>
            requestStatus u =
              (if data_status d = Some ''requested'' then ''requested'' else ''none'')"
    unfolding s'(2) by (rule patched_status)
  have refresh: "Load FetchRecommendations [] \<in> set (inflight s')"
    unfolding s'(4) by simp
  from s'(1) ids status s'(3) refresh s'(5) show ?thesis by blast
qed

theorem request_or_cancel_success_witness:
  "\<exists>s'. step (SendReply ''u1'' (Http 200 \<lparr> data_status = Some ''requested'',
                                             data_message = ''Friend request sent'' \<rparr>))
             (fetch (SendFriendRequest ''u1'') (initial\<lparr> searchResults := [xena, yuri] \<rparr>))
           = Inr s'
      \<and> map user_id (searchResults s') = [''u1'', ''u2'']
      \<and> requestStatus (hd (searchResults s')) = ''requested''
      \<and> notifications s' = \<lparr> message = ''Friend request sent'', type = ''success'' \<rparr>
      \<and> Load FetchRecommendations [] \<in> set (inflight s')"
proof -
  let ?s = "fetch (SendFriendRequest ''u1'') (initial\<lparr> searchResults := [xena, yuri] \<rparr>)"
  let ?d = "\<lparr> data_status = Some ''requested'', data_message = ''Friend request sent'' \<rparr>"
  have sent: "SendFriendRequest ''u1'' \<in> set (inflight ?s)"
    by (simp add: fetch_def)
  have shown: "map user_id (searchResults ?s) = [''u1'', ''u2'']"
    by (simp add: fetch_def xena_def yuri_def)
  from request_or_cancel_success [OF sent, of 200 ?d] obtain s' where
    s': "step (SendReply ''u1'' (Http 200 ?d)) ?s = Inr s'"
        "map user_id (searchResults s') = map user_id (searchResults ?s)"
        "\<forall>u \<in> set (searchResults s'). user_id u = ''u1'' \<longrightarrow> requestStatus u = ''requested''"
        "notifications s' = \<lparr> message = ''Friend request sent'', type = ''success'' \<rparr>"
        "Load FetchRecommendations [] \<in> set (inflight s')"
    by auto
  from s'(2) shown have ids: "map user_id (searchResults s') = [''u1'', ''u2'']" by simp
  then obtain z za where zs: "searchResults s' = [z, za]" "user_id z = ''u1''" by auto
  with s'(3) have first: "requestStatus (hd (searchResults s')) = ''requested''" by simp
  show ?thesis
    using s'(1) ids first s'(4) s'(5) by (intro exI [of _ s']) simp
qed

text \<open>
  C10. On the success path of \<^verbatim>\<open>sendFriendRequest(userId)\<close> the search results keep
  their length; an entry whose id differs from \<open>userId\<close> is the entry it was, and an
  entry with that id differs from the one it was in its \<^verbatim>\<open>requestStatus\<close> only. The
  friends and the pending requests are not touched.
\<close>

theorem request_or_cancel_frame:
  assumes "SendFriendRequest userId \<in> set (inflight s)"
  shows "\<exists>s'. step (SendReply userId (Http code d)) s = Inr s'
      \<and> length (searchResults s') = length (searchResults s)
      \<and> (\<forall>i < length (searchResults s).
            searchResults s' ! i =
              (if user_id (searchResults s ! i) = userId
               then (searchResults s ! i)
                      \<lparr> requestStatus :=
                          (if data_status d = Some ''requested''
                           then ''requested'' else ''none'') \<rparr>
               else searchResults s ! i))
      \<and> friends s' = friends s
      \<and> pendingRequests s' = pendingRequests s"
proof -
  from send_reply_fields [OF assms, of code d] obtain s' where
    s': "step (SendReply userId (Http code d)) s = Inr s'"
      "searchResults s' =
           map (\<lambda>u. if user_id u = userId
                     then u\<lparr> requestStatus :=
                            (if data_status d = Some ''requested''
                             then ''requested'' else ''none'') \<rparr>
                     else u) (searchResults s)"
      "friends s' = friends s" "pendingRequests s' = pendingRequests s"
    by blast
  have len: "length (searchResults s') = length (searchResults s)"
    unfolding s'(2) by simp
  have entries: "\<forall>i < length (searchResults s).
            searchResults s' ! i =
              (if user_id (searchResults s ! i) = userId
               then (searchResults s ! i)
                      \<lparr> requestStatus :=
                          (if data_status d = Some ''requested''
                           then ''requested'' else ''none'') \<rparr>
               else searchResults s ! i)"
    unfolding s'(2) by simp
  from s'(1) len entries s'(3) s'(4) show ?thesis by blast
qed

theorem request_or_cancel_frame_witness:
  "\<exists>s'. step (SendReply ''u1'' (Http 200 \<lparr> data_status = Some ''requested'',
                                             data_message = ''Friend request sent'' \<rparr>))
             (fetch (SendFriendRequest ''u1'')
                (initial\<lparr> searchResults := [xena, yuri], friends := [fred],
                          pendingRequests := [pat] \<rparr>)) = Inr s'
      \<and> length (searchResults s') = 2
      \<and> searchResults s' ! 0 = xena\<lparr> requestStatus := ''requested'' \<rparr>
      \<and> searchResults s' ! 1 = yuri
      \<and> friends s' = [fred]
      \<and> pendingRequests s' = [pat]"
proof -
  let ?s = "fetch (SendFriendRequest ''u1'')
                (initial\<lparr> searchResults := [xena, yuri], friends := [fred],
                          pendingRequests := [pat] \<rparr>)"
  let ?d = "\<lparr> data_status = Some ''requested'', data_message = ''Friend request sent'' \<rparr>"
  have sent: "SendFriendRequest ''u1'' \<in> set (inflight ?s)"
    by (simp add: fetch_def)
  have results: "searchResults ?s = [xena, yuri]" "friends ?s = [fred]"
      "pendingRequests ?s = [pat]"
    by (simp_all add: fetch_def)
  from request_or_cancel_frame [OF sent, of 200 ?d] obtain s' where
    s': "step (SendReply ''u1'' (Http 200 ?d)) ?s = Inr s'"
        "length (searchResults s') = length (searchResults ?s)"
        "\<forall>i < length (searchResults ?s).
            searchResults s' ! i =
              (if user_id (searchResults ?s ! i) = ''u1''
               then (searchResults ?s ! i)\<lparr> requestStatus := ''requested'' \<rparr>
               else searchResults ?s ! i)"
        "friends s' = friends ?s"
        "pendingRequests s' = pendingRequests ?s"
    by auto
  from s'(3) have "searchResults s' ! 0 = xena\<lparr> requestStatus := ''requested'' \<rparr>"
    and "searchResults s' ! 1 = yuri"
    unfolding results by (simp_all add: xena_def yuri_def)
  with s'(1,2,4,5) show ?thesis
    unfolding results by (intro exI [of _ s']) simp
qed

text \<open>
  C9. A user is shown in the search results, with status \<^verbatim>\<open>'none'\<close> wherever it is
  shown. The button is clicked and the service reports \<^verbatim>\<open>'requested'\<close>: every entry
  of the user now has status \<^verbatim>\<open>'requested'\<close>. The button is clicked again and the
  service reports anything else (the cancellation): the search results are again what
  they were before the first click.
\<close>

theorem request_then_cancel_restores:
  assumes "userId \<in> user_id ` set (searchResults s)"
      and "\<forall>u \<in> set (searchResults s). user_id u = userId \<longrightarrow> requestStatus u = ''none''"
      and "data_status d1 = Some ''requested''"
      and "data_status d2 \<noteq> Some ''requested''"
  shows "\<exists>s1 s2.
           run [ClickSend userId, SendReply userId (Http c1 d1)] s = Inr s1
         \<and> (\<forall>u \<in> set (searchResults s1).
               user_id u = userId \<longrightarrow> requestStatus u = ''requested'')
         \<and> userId \<in> user_id ` set (searchResults s1)
         \<and> run [ClickSend userId, SendReply userId (Http c2 d2)] s1 = Inr s2
         \<and> searchResults s2 = searchResults s"
proof -
  from assms(1) obtain u where u: "u \<in> set (searchResults s)" "user_id u = userId" by auto
  with assms(2) have "requestStatus u = ''none''" by simp
  with u have b0: "userId \<in> set (sendButtons s)"
    by (intro button_for_entry [of u]) simp_all
  let ?sa = "fetch (SendFriendRequest userId) s"
  have fa: "SendFriendRequest userId \<in> set (inflight ?sa)" by (simp add: fetch_def)
  from send_reply_fields [OF fa, of c1 d1] obtain s1 where
    s1: "step (SendReply userId (Http c1 d1)) ?sa = Inr s1"
        "searchResults s1 =
           map (\<lambda>u. if user_id u = userId
                     then u\<lparr> requestStatus :=
                            (if data_status d1 = Some ''requested''
                             then ''requested'' else ''none'') \<rparr>
                     else u) (searchResults ?sa)"
    by blast
  have r1: "searchResults s1 =
           map (\<lambda>u. if user_id u = userId then u\<lparr> requestStatus := ''requested'' \<rparr> else u)
               (searchResults s)"
    unfolding s1(2) by (simp add: assms(3) fetch_def)
  have run1: "run [ClickSend userId, SendReply userId (Http c1 d1)] s = Inr s1"
    using b0 s1(1) by (simp del: step.simps add: click_send)
  have st1: "\<forall>u \<in> set (searchResults s1).
               user_id u = userId \<longrightarrow> requestStatus u = ''requested''"
    unfolding r1 by (rule patched_status)
  have ids1: "map user_id (searchResults s1) = map user_id (searchResults s)"
    unfolding r1 by (rule patched_id)
  have "user_id ` set (searchResults s1) = user_id ` set (searchResults s)"
    using arg_cong [OF ids1, of set] by simp
  with assms(1) have in1: "userId \<in> user_id ` set (searchResults s1)" by simp
  then obtain u1 where u1: "u1 \<in> set (searchResults s1)" "user_id u1 = userId" by auto
  with st1 have "requestStatus u1 = ''requested''" by simp
  with u1 have b1: "userId \<in> set (sendButtons s1)"
    by (intro button_for_entry [of u1]) simp_all
  let ?sb = "fetch (SendFriendRequest userId) s1"
  have fb: "SendFriendRequest userId \<in> set (inflight ?sb)" by (simp add: fetch_def)
  from send_reply_fields [OF fb, of c2 d2] obtain s2 where
    s2: "step (SendReply userId (Http c2 d2)) ?sb = Inr s2"
        "searchResults s2 =
           map (\<lambda>u. if user_id u = userId
                     then u\<lparr> requestStatus :=
                            (if data_status d2 = Some ''requested''
                             then ''requested'' else ''none'') \<rparr>
                     else u) (searchResults ?sb)"
    by blast
  have r2: "searchResults s2 =
           map (\<lambda>u. if user_id u = userId then u\<lparr> requestStatus := ''none'' \<rparr> else u)
               (searchResults s1)"
    unfolding s2(2) by (simp add: assms(4) fetch_def)
  have run2: "run [ClickSend userId, SendReply userId (Http c2 d2)] s1 = Inr s2"
    using b1 s2(1) by (simp del: step.simps add: click_send)
  have restored: "searchResults s2 = searchResults s"
    unfolding r2 r1 using assms(2) by (rule patch_twice)
  from run1 st1 in1 run2 restored show ?thesis by blast
qed

theorem request_then_cancel_restores_witness:
  "\<exists>s1 s2.
     run [ClickSend ''u1'',
          SendReply ''u1'' (Http 200 \<lparr> data_status = Some ''requested'',
                                       data_message = ''Friend request sent'' \<rparr>)]
         (initial\<lparr> searchResults := [xena, yuri] \<rparr>) = Inr s1
   \<and> run [ClickSend ''u1'',
          SendReply ''u1'' (Http 200 \<lparr> data_status = Some ''cancelled'',
                                       data_message = ''Friend request cancelled'' \<rparr>)]
         s1 = Inr s2
   \<and> searchResults s2 = [xena, yuri]"
proof -
  let ?s = "initial\<lparr> searchResults := [xena, yuri] \<rparr>"
  let ?d1 = "\<lparr> data_status = Some ''requested'', data_message = ''Friend request sent'' \<rparr>"
  let ?d2 = "\<lparr> data_status = Some ''cancelled'',
               data_message = ''Friend request cancelled'' \<rparr>"
  have shown: "''u1'' \<in> user_id ` set (searchResults ?s)"
    by (simp add: xena_def)
  have none: "\<forall>u \<in> set (searchResults ?s). user_id u = ''u1'' \<longrightarrow> requestStatus u = ''none''"
    by (simp add: xena_def yuri_def)
  have requested: "data_status ?d1 = Some ''requested''" by simp
  have cancelled: "data_status ?d2 \<noteq> Some ''requested''" by simp
  from request_then_cancel_restores [OF shown none requested cancelled, of 200 200]
  show ?thesis by (simp del: run.simps) blast
qed

subsection \<open>Loading on mount\<close>

lemma mount_sends_friends_only:
  "step Mount s = Inr (fetch (Load FetchFriends [FetchRecommendations, FetchPendingRequests]) s)"
  by (simp add: fetchAllData_def fetchFriends_def)

lemma friends_reply:
  "Load FetchFriends fs \<in> set (inflight s) \<Longrightarrow>
   step (FriendsReply fs r) s =
     Inr (continue fs (s\<lparr> inflight := remove1 (Load FetchFriends fs) (inflight s),
                           friends := loaded r (friends s),
                           console := console s
                             @ replicate (caught r) ''Error fetching friends:'' \<rparr>))"
  by (cases r) (simp_all add: env_defs handler_defs)

lemma recommendations_reply:
  "Load FetchRecommendations fs \<in> set (inflight s) \<Longrightarrow>
   step (RecommendationsReply fs r) s =
     Inr (continue fs (s\<lparr> inflight := remove1 (Load FetchRecommendations fs) (inflight s),
                           recommendations := loaded r (recommendations s),
                           console := console s
                             @ replicate (caught r) ''Error fetching recommendations:'' \<rparr>))"
  by (cases r) (simp_all add: env_defs handler_defs)

lemma pending_reply:
  "Load FetchPendingRequests fs \<in> set (inflight s) \<Longrightarrow>
   step (PendingReply fs r) s =
     Inr (continue fs (s\<lparr> inflight := remove1 (Load FetchPendingRequests fs) (inflight s),
                           pendingRequests := loaded r (pendingRequests s),
                           console := console s
                             @ replicate (caught r) ''Error fetching pending requests:'' \<rparr>))"
  by (cases r) (simp_all add: env_defs handler_defs)

text \<open>
  C7, as stated, fails. On mount only the request for the friends is sent: the other
  two wait for it. And when the fetch of the recommendations fails while the other two
  succeed, the notification slot still holds its initial, empty value: no error
  notification is emitted.
\<close>

theorem failed_load_emits_no_notification:
  "map_sum id issued (run [Mount] initial)
     = Inr [(0, Load FetchFriends [FetchRecommendations, FetchPendingRequests])]
   \<and> map_sum id notifications
       (run [Mount,
             FriendsReply [FetchRecommendations, FetchPendingRequests] (Http 200 [fred]),
             RecommendationsReply [FetchPendingRequests] NetworkError,
             PendingReply [] (Http 200 [pat])] initial)
     = Inr \<lparr> message = [], type = [] \<rparr>"
  by (simp add: initial_def env_defs handler_defs)

text \<open>
  C7, amended. On mount the three collections are fetched one after the other, each
  request being sent when the previous fetch function has returned. A fetch fails when
  it rejects: the \<^verbatim>\<open>fetch\<close> itself (\<open>NetworkError\<close>) or the parse of the body
  (\<open>MalformedResponse\<close>). Such a failure does not block the fetches after it: however
  the three requests settle, all three are made and the run completes. A collection
  whose fetch failed by rejecting keeps its previous value (\<open>loaded\<close> returns the old
  value for exactly these two replies) and every other collection holds the body that
  was returned; each rejection writes one line to the console (\<open>caught\<close> counts
  exactly these two replies), and the notification slot is left as it was. The status
  code of a response is not read: a body that parses is stored under any status, which
  is the subject of C3.
\<close>

theorem mount_loads_one_after_the_other:
  "\<exists>s'. run [Mount,
              FriendsReply [FetchRecommendations, FetchPendingRequests] r1,
              RecommendationsReply [FetchPendingRequests] r2,
              PendingReply [] r3] s = Inr s'
       \<and> friends s' = loaded r1 (friends s)
       \<and> recommendations s' = loaded r2 (recommendations s)
       \<and> pendingRequests s' = loaded r3 (pendingRequests s)
       \<and> notifications s' = notifications s
       \<and> length (console s') = length (console s) + caught r1 + caught r2 + caught r3
       \<and> map snd (issued s') = map snd (issued s) @
            [Load FetchFriends [FetchRecommendations, FetchPendingRequests],
             Load FetchRecommendations [FetchPendingRequests],
             Load FetchPendingRequests []]"
  by (simp del: step.simps
      add: mount_sends_friends_only friends_reply recommendations_reply pending_reply
           fetch_def fetchRecommendations_def fetchPendingRequests_def)

theorem mount_loads_one_after_the_other_witness:
  "\<exists>s'. run [Mount,
              FriendsReply [FetchRecommendations, FetchPendingRequests] (Http 200 [fred]),
              RecommendationsReply [FetchPendingRequests] NetworkError,
              PendingReply [] (Http 200 [pat])] initial = Inr s'
       \<and> friends s' = [fred]
       \<and> recommendations s' = []
       \<and> pendingRequests s' = [pat]
       \<and> notifications s' = \<lparr> message = [], type = [] \<rparr>
       \<and> length (console s') = 1"
  using mount_loads_one_after_the_other
          [of "Http 200 [fred]" NetworkError "Http 200 [pat]" initial]
  by (auto simp add: initial_def simp del: run.simps)

subsection \<open>Accepting a request\<close>

lemma accept_reply:
  assumes "AcceptFriendRequest userId \<in> set (inflight s)" and "r \<noteq> NetworkError"
  shows "step (AcceptReply userId r) s =
     Inr (s\<lparr> inflight := remove1 (AcceptFriendRequest userId) (inflight s)
                          @ [Load FetchPendingRequests [], Load FetchFriends []],
             issued := issued s @ [(clock s, Load FetchPendingRequests []),
                                   (clock s, Load FetchFriends [])] \<rparr>)"
  using assms by (cases r) (simp_all add: env_defs handler_defs)

lemma click_accept:
  "userId \<in> set (map user_id (pendingRequests s)) \<Longrightarrow>
   step (ClickAccept userId) s = Inr (fetch (AcceptFriendRequest userId) s)"
  by (simp add: click_def acceptButtons_def acceptFriendRequest_def)

text \<open>
  C8, as stated, fails. The pending list holds the request of \<^verbatim>\<open>pat\<close>, which the user
  accepts; the service answers 200. The entry is still in the pending list at that
  point: nothing removes it locally. The refresh of the pending list then fails and the
  refresh of the friends succeeds: \<^verbatim>\<open>pat\<close> is a friend and is still pending.
\<close>

theorem accepted_request_stays_pending:
  "map_sum id pendingRequests
     (run [Mount, FriendsReply [FetchRecommendations, FetchPendingRequests] (Http 200 []),
           RecommendationsReply [FetchPendingRequests] (Http 200 []),
           PendingReply [] (Http 200 [pat]),
           ClickAccept ''u5'', AcceptReply ''u5'' (Http 200 ())] initial) = Inr [pat]
   \<and> map_sum id pendingRequests
     (run [Mount, FriendsReply [FetchRecommendations, FetchPendingRequests] (Http 200 []),
           RecommendationsReply [FetchPendingRequests] (Http 200 []),
           PendingReply [] (Http 200 [pat]),
           ClickAccept ''u5'', AcceptReply ''u5'' (Http 200 ()),
           PendingReply [] NetworkError, FriendsReply [] (Http 200 [pat])] initial) = Inr [pat]
   \<and> map_sum id friends
     (run [Mount, FriendsReply [FetchRecommendations, FetchPendingRequests] (Http 200 []),
           RecommendationsReply [FetchPendingRequests] (Http 200 []),
           PendingReply [] (Http 200 [pat]),
           ClickAccept ''u5'', AcceptReply ''u5'' (Http 200 ()),
           PendingReply [] NetworkError, FriendsReply [] (Http 200 [pat])] initial) = Inr [pat]"
  by (simp add: initial_def pat_def env_defs handler_defs)

text \<open>
  C8, amended. For a user with an entry in the pending list, when the request of
  \<^verbatim>\<open>acceptFriendRequest(userId)\<close> is answered the pending list is not edited: a
  refresh of the pending list and a refresh of the friends are sent. Once both have
  settled with responses that parse, in either order, the pending list and the friends
  are the lists the service returned; so the user is absent from the pending list and
  present among the friends when the refreshed lists of the service say so.
\<close>

theorem accept_refreshes_both_lists:
  assumes "userId \<in> set (map user_id (pendingRequests s))"
  shows "map_sum id pendingRequests
           (run [ClickAccept userId, AcceptReply userId (Http code ())] s)
         = Inr (pendingRequests s)
       \<and> map_sum id inflight
           (run [ClickAccept userId, AcceptReply userId (Http code ())] s)
         = Inr (remove1 (AcceptFriendRequest userId) (inflight s @ [AcceptFriendRequest userId])
                @ [Load FetchPendingRequests [], Load FetchFriends []])
       \<and> map_sum id pendingRequests
           (run [ClickAccept userId, AcceptReply userId (Http code ()),
                 PendingReply [] (Http c1 ps), FriendsReply [] (Http c2 fs)] s) = Inr ps
       \<and> map_sum id friends
           (run [ClickAccept userId, AcceptReply userId (Http code ()),
                 PendingReply [] (Http c1 ps), FriendsReply [] (Http c2 fs)] s) = Inr fs
       \<and> map_sum id pendingRequests
           (run [ClickAccept userId, AcceptReply userId (Http code ()),
                 FriendsReply [] (Http c2 fs), PendingReply [] (Http c1 ps)] s) = Inr ps
       \<and> map_sum id friends
           (run [ClickAccept userId, AcceptReply userId (Http code ()),
                 FriendsReply [] (Http c2 fs), PendingReply [] (Http c1 ps)] s) = Inr fs"
  using assms
  by (simp del: step.simps set_map
      add: click_accept accept_reply friends_reply pending_reply fetch_def)

theorem accept_refreshes_both_lists_witness:
  "map_sum id pendingRequests
           (run [ClickAccept ''u5'', AcceptReply ''u5'' (Http 200 ())]
                (initial\<lparr> pendingRequests := [pat] \<rparr>))
         = Inr [pat]
   \<and> map_sum id pendingRequests
           (run [ClickAccept ''u5'', AcceptReply ''u5'' (Http 200 ()),
                 PendingReply [] (Http 200 []), FriendsReply [] (Http 200 [pat])]
                (initial\<lparr> pendingRequests := [pat] \<rparr>)) = Inr []
   \<and> map_sum id friends
           (run [ClickAccept ''u5'', AcceptReply ''u5'' (Http 200 ()),
                 PendingReply [] (Http 200 []), FriendsReply [] (Http 200 [pat])]
                (initial\<lparr> pendingRequests := [pat] \<rparr>)) = Inr [pat]"
  using accept_refreshes_both_lists
          [of "''u5''" "initial\<lparr> pendingRequests := [pat] \<rparr>" 200 200 "[]" 200 "[pat]"]
  by (simp add: pat_def del: run.simps)

end
